theory Spec2Isabelle
  imports Complex_Main
begin

section \<open>Skill recommendation service (ai/recommendation/service.py)\<close>

text \<open>
  The service scores every catalog skill by its cosine similarity to the user's
  vector, rescales the scores of liked and disliked skills, returns the five best
  and builds a learning path from them. The scores line 9 computes are read as real
  numbers; the one value of the computation that is no real number, the \<open>nan\<close> NumPy
  gives for \<open>0 / 0\<close>, is a value of its own. The products of lines 15 and 17 are
  products of doubles, which round: the multiplication is a parameter of the model.
\<close>

subsection \<open>NumPy values and Python errors\<close>

datatype npfloat = Finite real | NaN

datatype error = ValueError | IndexError

text \<open>
  In-place scaling \<open>x *= c\<close> with the multiplication \<open>mul\<close> of doubles: \<open>nan\<close> stays
  \<open>nan\<close>.
\<close>

fun np_mul :: "(real \<Rightarrow> real \<Rightarrow> real) \<Rightarrow> npfloat \<Rightarrow> real \<Rightarrow> npfloat" where
  "np_mul mul (Finite x) c = Finite (mul x c)"
| "np_mul mul NaN c = NaN"

text \<open>The order NumPy sorts floats by: the usual one, with \<open>nan\<close> after every number.\<close>

fun np_lt :: "npfloat \<Rightarrow> npfloat \<Rightarrow> bool" where
  "np_lt (Finite x) (Finite y) = (x < y)"
| "np_lt (Finite x) NaN = True"
| "np_lt NaN y = False"

text \<open>Sequencing of computations that may raise: the first error ends the call.\<close>

definition ebind :: "error + 'a \<Rightarrow> ('a \<Rightarrow> error + 'b) \<Rightarrow> error + 'b" where
  "ebind m f = (case m of Inl e \<Rightarrow> Inl e | Inr x \<Rightarrow> f x)"

text \<open>\<open>np.dot\<close> of two vectors raises \<open>ValueError\<close> when their shapes differ.\<close>

definition np_dot :: "real list \<Rightarrow> real list \<Rightarrow> error + real" where
  "np_dot v u =
     (if length v = length u then Inr (\<Sum>(a, b)\<leftarrow>zip v u. a * b) else Inl ValueError)"

text \<open>\<open>np.linalg.norm\<close> of a vector: the L2 norm.\<close>

definition np_norm :: "real list \<Rightarrow> real" where
  "np_norm v = sqrt (\<Sum>a\<leftarrow>v. a * a)"

text \<open>
  Float division of a dot product by a product of norms. NumPy raises nothing on a
  zero divisor (it warns): the quotient is \<open>nan\<close> for \<open>0 / 0\<close>. The dividend is zero
  whenever the divisor is (lemma \<open>zero_divisor_zero_dot\<close> below), so \<open>\<plusminus>inf\<close> does
  not occur.
\<close>

definition np_divide :: "real \<Rightarrow> real \<Rightarrow> npfloat" where
  "np_divide a b = (if b = 0 then NaN else Finite (a / b))"

text \<open>Python list indexing \<open>xs[i]\<close> with a non-negative index.\<close>

definition py_index :: "'a list \<Rightarrow> nat \<Rightarrow> error + 'a" where
  "py_index xs i = (if i < length xs then Inr (xs ! i) else Inl IndexError)"

text \<open>The comprehension \<open>[xs[i] for i in idx]\<close>.\<close>

fun py_index_all :: "'a list \<Rightarrow> nat list \<Rightarrow> error + 'a list" where
  "py_index_all xs [] = Inr []"
| "py_index_all xs (i # idx) =
     ebind (py_index xs i) (\<lambda>x. ebind (py_index_all xs idx) (\<lambda>rest. Inr (x # rest)))"

text \<open>The slice \<open>xs[-k:]\<close>: the last \<open>k\<close> entries, all of them when there are fewer.\<close>

definition last_n :: "nat \<Rightarrow> 'a list \<Rightarrow> 'a list" where
  "last_n k xs = drop (length xs - k) xs"

text \<open>
  A Python dictionary from strings to lists of strings, as the list of its items;
  \<open>d.get(k, [])\<close> is \<open>dict_get\<close>, and a dictionary is truthy when it has an item.
\<close>

type_synonym py_dict = "(string \<times> string list) list"

definition dict_get :: "py_dict \<Rightarrow> string \<Rightarrow> string list" where
  "dict_get d k = (case map_of d k of None \<Rightarrow> [] | Some v \<Rightarrow> v)"

subsection \<open>What the service calls\<close>

text \<open>
  Modelled from the spec: the module \<open>.model\<close> with \<open>encode_skills\<close> is not among the
  sources. By the spec the encoder is a pure function that gives one vector for the
  user's skill list (the user vector) and one vector per catalog name, in order; these
  are \<open>encode_user\<close> and \<open>encode_skill\<close>. \<open>np.argsort\<close> is NumPy's; its default sort is
  not stable, so the order it gives equal scores is left open: \<open>argsort\<close> is any
  function that \<open>argsort_ok\<close> accepts. \<open>float_mul\<close> is the product of two doubles
  as the \<open>*=\<close> of lines 15 and 17 computes it, the exact product rounded to a double; it
  is not the product of real numbers (the smallest positive double times 1.2 is that double
  again), and what is used of it is \<open>float_mul_ok\<close>.
\<close>

record deps =
  encode_user :: "string list \<Rightarrow> real list"
  encode_skill :: "string \<Rightarrow> real list"
  argsort :: "npfloat list \<Rightarrow> nat list"
  float_mul :: "real \<Rightarrow> real \<Rightarrow> real"

text \<open>
  \<open>np.argsort(a)\<close> returns the indices of \<open>a\<close>, each once, in an order in which the
  entries ascend.
\<close>

definition argsort_ok :: "(npfloat list \<Rightarrow> nat list) \<Rightarrow> bool" where
  "argsort_ok srt =
     (\<forall>a. distinct (srt a) \<and> set (srt a) = {0..<length a} \<and>
          sorted_wrt (\<lambda>i j. \<not> np_lt (a ! j) (a ! i)) (srt a))"


subsection \<open>The service\<close>

record result =
  recommended_skills :: "string list"
  recommended_users :: "string list"
  learning_path :: "string list"

definition generate_learning_path :: "string list \<Rightarrow> string list \<Rightarrow> string list" where
  "generate_learning_path current_skills recommended =
     (let path0 = [''Foundation Skills''];
          path1 = (if length current_skills > 2 then path0 @ [''Intermediate Topics'']
                   else path0);
          path2 = path1 @ take 3 recommended;
          path3 = path2 @ [''Advanced Mastery'']
      in path3)"

text \<open>
  Line 9: one score per catalog row, the dot product with the user vector over the
  product of the two norms.
\<close>

definition similarity :: "real list \<Rightarrow> real list \<Rightarrow> error + npfloat" where
  "similarity skill_vector user_vector =
     ebind (np_dot skill_vector user_vector)
       (\<lambda>p. Inr (np_divide p (np_norm skill_vector * np_norm user_vector)))"

fun similarity_rows :: "real list list \<Rightarrow> real list \<Rightarrow> error + npfloat list" where
  "similarity_rows [] user_vector = Inr []"
| "similarity_rows (v # vs) user_vector =
     ebind (similarity v user_vector)
       (\<lambda>s. ebind (similarity_rows vs user_vector) (\<lambda>rest. Inr (s # rest)))"

definition similarities :: "deps \<Rightarrow> string list \<Rightarrow> string list \<Rightarrow> error + npfloat list" where
  "similarities d user_skills all_skills =
     (let user_vector = encode_user d user_skills;
          skill_vectors = map (encode_skill d) all_skills
      in similarity_rows skill_vectors user_vector)"

text \<open>\<open>similarities[i] *= c\<close>.\<close>

definition scale_at ::
  "(real \<Rightarrow> real \<Rightarrow> real) \<Rightarrow> nat \<Rightarrow> real \<Rightarrow> npfloat list \<Rightarrow> error + npfloat list" where
  "scale_at mul i c sims =
     (if i < length sims then Inr (sims[i := np_mul mul (sims ! i) c]) else Inl IndexError)"

text \<open>Lines 13-17: the loop over \<open>enumerate(all_skills)\<close>.\<close>

fun feedback_loop ::
  "(real \<Rightarrow> real \<Rightarrow> real) \<Rightarrow> py_dict \<Rightarrow> (nat \<times> string) list \<Rightarrow> npfloat list \<Rightarrow>
     error + npfloat list" where
  "feedback_loop mul fb [] sims = Inr sims"
| "feedback_loop mul fb ((i, skill) # rest) sims =
     ebind (if skill \<in> set (dict_get fb ''liked'') then scale_at mul i 1.2 sims else Inr sims)
       (\<lambda>sims1.
          ebind (if skill \<in> set (dict_get fb ''disliked'') then scale_at mul i 0.8 sims1
                 else Inr sims1)
            (feedback_loop mul fb rest))"

text \<open>Lines 12-17: nothing is adjusted when \<open>feedback\<close> is \<open>None\<close> or an empty dictionary.\<close>

definition apply_feedback ::
  "(real \<Rightarrow> real \<Rightarrow> real) \<Rightarrow> py_dict option \<Rightarrow> string list \<Rightarrow> npfloat list \<Rightarrow>
     error + npfloat list" where
  "apply_feedback mul feedback all_skills sims =
     (case feedback of
        None \<Rightarrow> Inr sims
      | Some fb \<Rightarrow>
          if fb = [] then Inr sims else feedback_loop mul fb (enumerate 0 all_skills) sims)"

text \<open>The scores that are ranked: lines 9-17.\<close>

definition final_scores ::
  "deps \<Rightarrow> string list \<Rightarrow> string list \<Rightarrow> py_dict option \<Rightarrow> error + npfloat list" where
  "final_scores d user_skills all_skills feedback =
     ebind (similarities d user_skills all_skills)
       (apply_feedback (float_mul d) feedback all_skills)"

text \<open>Line 19: \<open>np.argsort(similarities)[-5:][::-1]\<close>.\<close>

definition top_indices :: "deps \<Rightarrow> npfloat list \<Rightarrow> nat list" where
  "top_indices d sims = rev (last_n 5 (argsort d sims))"

definition get_recommendations ::
  "deps \<Rightarrow> string list \<Rightarrow> string list \<Rightarrow> string list \<Rightarrow> py_dict option \<Rightarrow> error + result" where
  "get_recommendations d user_skills all_skills user_exchanges feedback =
     ebind (final_scores d user_skills all_skills feedback)
       (\<lambda>sims.
          ebind (py_index_all all_skills (top_indices d sims))
            (\<lambda>recommended.
               Inr \<lparr>recommended_skills = recommended,
                    recommended_users = [],
                    learning_path = generate_learning_path user_skills recommended\<rparr>))"

subsection \<open>The effect of the feedback loop on one entry\<close>

text \<open>
  What lines 14-17 do to the score of a skill in the iteration that visits it; the
  lemmas on \<open>feedback_loop\<close> below are stated with it.
\<close>

definition rescaled ::
  "(real \<Rightarrow> real \<Rightarrow> real) \<Rightarrow> py_dict \<Rightarrow> string \<Rightarrow> npfloat \<Rightarrow> npfloat" where
  "rescaled mul fb skill x =
     (let x1 = (if skill \<in> set (dict_get fb ''liked'') then np_mul mul x 1.2 else x)
      in if skill \<in> set (dict_get fb ''disliked'') then np_mul mul x1 0.8 else x1)"

text \<open>The real number a score holds (read only where the score is no \<open>nan\<close>).\<close>

fun the_real :: "npfloat \<Rightarrow> real" where
  "the_real (Finite x) = x"
| "the_real NaN = 0"

subsection \<open>A call and the objects it is given\<close>

text \<open>
  Python passes the three lists and the dictionary by reference, and lines 15, 17 and
  35-37 update objects in place. For what a call does to the objects it is given, the
  call is modelled once more, statement by statement, on a store of objects: list
  objects, dictionary objects and arrays, each addressed by its index in the store. A
  new object gets the next free index. The encoder's arrays and the index array of line
  19 are read only and stay values.
\<close>

record heap =
  lists :: "string list list"
  dicts :: "py_dict list"
  arrays :: "npfloat list list"

text \<open>The returned dictionary: references to the three list objects.\<close>

record result_refs =
  ref_recommended_skills :: nat
  ref_recommended_users :: nat
  ref_learning_path :: nat

text \<open>
  A statement takes the store and gives a value or an error, and the store it leaves;
  the objects written before an error stay written.
\<close>

type_synonym 'a heap_op = "heap \<Rightarrow> (error + 'a) \<times> heap"

definition hreturn :: "'a \<Rightarrow> 'a heap_op" where
  "hreturn x h = (Inr x, h)"

definition hbind :: "'a heap_op \<Rightarrow> ('a \<Rightarrow> 'b heap_op) \<Rightarrow> 'b heap_op" where
  "hbind m f h = (case m h of (Inl e, h') \<Rightarrow> (Inl e, h') | (Inr x, h') \<Rightarrow> f x h')"

definition lift :: "error + 'a \<Rightarrow> 'a heap_op" where
  "lift m h = (m, h)"

definition new_list :: "string list \<Rightarrow> nat heap_op" where
  "new_list xs h = (Inr (length (lists h)), h\<lparr>lists := lists h @ [xs]\<rparr>)"

definition read_list :: "nat \<Rightarrow> string list heap_op" where
  "read_list r h = (Inr (lists h ! r), h)"

definition write_list :: "nat \<Rightarrow> string list \<Rightarrow> unit heap_op" where
  "write_list r xs h = (Inr (), h\<lparr>lists := (lists h)[r := xs]\<rparr>)"

definition read_dict :: "nat \<Rightarrow> py_dict heap_op" where
  "read_dict r h = (Inr (dicts h ! r), h)"

definition new_array :: "npfloat list \<Rightarrow> nat heap_op" where
  "new_array a h = (Inr (length (arrays h)), h\<lparr>arrays := arrays h @ [a]\<rparr>)"

definition read_array :: "nat \<Rightarrow> npfloat list heap_op" where
  "read_array r h = (Inr (arrays h ! r), h)"

definition write_array :: "nat \<Rightarrow> npfloat list \<Rightarrow> unit heap_op" where
  "write_array r a h = (Inr (), h\<lparr>arrays := (arrays h)[r := a]\<rparr>)"

text \<open>\<open>similarities[i] *= c\<close> on the array object.\<close>

definition scale_in_place :: "(real \<Rightarrow> real \<Rightarrow> real) \<Rightarrow> nat \<Rightarrow> nat \<Rightarrow> real \<Rightarrow> unit heap_op" where
  "scale_in_place mul r i c =
     hbind (read_array r) (\<lambda>a. hbind (lift (scale_at mul i c a)) (write_array r))"

text \<open>Lines 13-17; \<open>feedback.get\<close> reads the dictionary object each time.\<close>

fun feedback_loop_heap ::
  "(real \<Rightarrow> real \<Rightarrow> real) \<Rightarrow> nat \<Rightarrow> nat \<Rightarrow> (nat \<times> string) list \<Rightarrow> unit heap_op" where
  "feedback_loop_heap mul fr r [] = hreturn ()"
| "feedback_loop_heap mul fr r ((i, skill) # rest) =
     hbind (read_dict fr) (\<lambda>fb.
     hbind (if skill \<in> set (dict_get fb ''liked'') then scale_in_place mul r i 1.2
            else hreturn ()) (\<lambda>_.
     hbind (read_dict fr) (\<lambda>fb.
     hbind (if skill \<in> set (dict_get fb ''disliked'') then scale_in_place mul r i 0.8
            else hreturn ()) (\<lambda>_.
     feedback_loop_heap mul fr r rest))))"

text \<open>\<open>path.append(x)\<close> and \<open>path.extend(ys)\<close>.\<close>

definition append_list :: "nat \<Rightarrow> string \<Rightarrow> unit heap_op" where
  "append_list r x = hbind (read_list r) (\<lambda>xs. write_list r (xs @ [x]))"

definition extend_list :: "nat \<Rightarrow> string list \<Rightarrow> unit heap_op" where
  "extend_list r ys = hbind (read_list r) (\<lambda>xs. write_list r (xs @ ys))"

text \<open>Lines 31-38; \<open>recommended_skills[:3]\<close> is a copy.\<close>

definition generate_learning_path_heap :: "nat \<Rightarrow> nat \<Rightarrow> nat heap_op" where
  "generate_learning_path_heap current_ref recommended_ref =
     hbind (new_list [''Foundation Skills'']) (\<lambda>path.
     hbind (read_list current_ref) (\<lambda>cs.
     hbind (if length cs > 2 then append_list path ''Intermediate Topics'' else hreturn ()) (\<lambda>_.
     hbind (read_list recommended_ref) (\<lambda>rs.
     hbind (extend_list path (take 3 rs)) (\<lambda>_.
     hbind (append_list path ''Advanced Mastery'') (\<lambda>_.
     hreturn path))))))"

text \<open>
  Lines 4-29. Line 9 creates the array \<open>similarities\<close>, line 21 the list
  \<open>recommended_skills\<close>, line 22 the list \<open>recommended_users\<close> and line 33 the list
  \<open>path\<close>; nothing else is written.
\<close>

definition get_recommendations_heap ::
  "deps \<Rightarrow> nat \<Rightarrow> nat \<Rightarrow> nat \<Rightarrow> nat option \<Rightarrow> result_refs heap_op" where
  "get_recommendations_heap d user_ref all_ref exchanges_ref feedback_ref =
     hbind (read_list user_ref) (\<lambda>us.
     hbind (read_list all_ref) (\<lambda>cat.
     hbind (lift (similarities d us cat)) (\<lambda>sims0.
     hbind (new_array sims0) (\<lambda>sims_ref.
     hbind (case feedback_ref of
              None \<Rightarrow> hreturn ()
            | Some fr \<Rightarrow>
                hbind (read_dict fr) (\<lambda>fb.
                  if fb = [] then hreturn ()
                  else feedback_loop_heap (float_mul d) fr sims_ref (enumerate 0 cat))) (\<lambda>_.
     hbind (read_array sims_ref) (\<lambda>sims.
     hbind (read_list all_ref) (\<lambda>cat'.
     hbind (lift (py_index_all cat' (top_indices d sims))) (\<lambda>recommended.
     hbind (new_list recommended) (\<lambda>recommended_ref.
     hbind (new_list []) (\<lambda>users_ref.
     hbind (generate_learning_path_heap user_ref recommended_ref) (\<lambda>path_ref.
     hreturn \<lparr>ref_recommended_skills = recommended_ref,
              ref_recommended_users = users_ref,
              ref_learning_path = path_ref\<rparr>)))))))))))"

text \<open>
  What a call returned, read from the store it left: the three lists of the result, or
  the error.
\<close>

definition deref :: "heap \<Rightarrow> result_refs \<Rightarrow> result" where
  "deref h refs =
     \<lparr>recommended_skills = lists h ! ref_recommended_skills refs,
      recommended_users = lists h ! ref_recommended_users refs,
      learning_path = lists h ! ref_learning_path refs\<rparr>"

definition outcome :: "(error + result_refs) \<times> heap \<Rightarrow> error + result" where
  "outcome p = (case fst p of Inl e \<Rightarrow> Inl e | Inr refs \<Rightarrow> Inr (deref (snd p) refs))"

text \<open>
  Every object of the store \<open>h\<close> is in \<open>h'\<close> at its index, with its contents: the
  store has only grown.
\<close>

definition preserved :: "heap \<Rightarrow> heap \<Rightarrow> bool" where
  "preserved h h' =
     (take (length (lists h)) (lists h') = lists h \<and>
      take (length (dicts h)) (dicts h') = dicts h \<and>
      take (length (arrays h)) (arrays h') = arrays h)"

text \<open>The arguments of a call refer to objects of the store.\<close>

definition valid_args :: "heap \<Rightarrow> nat \<Rightarrow> nat \<Rightarrow> nat \<Rightarrow> nat option \<Rightarrow> bool" where
  "valid_args h user_ref all_ref exchanges_ref feedback_ref =
     (user_ref < length (lists h) \<and> all_ref < length (lists h) \<and>
      exchanges_ref < length (lists h) \<and>
      (case feedback_ref of None \<Rightarrow> True | Some fr \<Rightarrow> fr < length (dicts h)))"

subsection \<open>A concrete encoder and a concrete sort\<close>

text \<open>
  For the concrete calls below: an insertion sort of the indices, one of the sorts
  \<open>argsort_ok\<close> accepts (it keeps equal scores in catalog order), an encoder that looks
  names up in a table of two-dimensional vectors, with the zero vector for a name it does
  not know, the sum of the skills' vectors as the user vector, and the exact product, one
  of the multiplications \<open>float_mul_ok\<close> accepts.
\<close>

fun insert_index :: "npfloat list \<Rightarrow> nat \<Rightarrow> nat list \<Rightarrow> nat list" where
  "insert_index a i [] = [i]"
| "insert_index a i (j # js) =
     (if np_lt (a ! j) (a ! i) then j # insert_index a i js else i # j # js)"

definition stable_argsort :: "npfloat list \<Rightarrow> nat list" where
  "stable_argsort a = foldr (insert_index a) [0..<length a] []"

definition table_encoder :: "(string \<times> real list) list \<Rightarrow> string \<Rightarrow> real list" where
  "table_encoder tbl name = (case map_of tbl name of None \<Rightarrow> [0, 0] | Some v \<Rightarrow> v)"

definition sum_pool :: "real list list \<Rightarrow> real list" where
  "sum_pool vs = foldr (\<lambda>v acc. map2 (+) v acc) vs [0, 0]"

definition table_deps :: "(string \<times> real list) list \<Rightarrow> deps" where
  "table_deps tbl =
     \<lparr>encode_user = (\<lambda>names. sum_pool (map (table_encoder tbl) names)),
      encode_skill = table_encoder tbl,
      argsort = stable_argsort,
      float_mul = (*)\<rparr>"

definition languages :: "(string \<times> real list) list" where
  "languages =
     [(''python'', [1, 0]), (''java'', [4, 3]), (''go'', [3, 4]), (''rust'', [0, 1]),
      (''c++'', [-1, 0]), (''ruby'', [-3, 4])]"

text \<open>
  The inputs of the concrete calls: the catalog of the spec's example, the scores and the
  result of the call with the one user skill \<open>python\<close> on it, and a feedback
  dictionary.
\<close>

definition language_names :: "string list" where
  "language_names = [''python'', ''java'', ''go'', ''rust'', ''c++'', ''ruby'']"

definition language_scores :: "npfloat list" where
  "language_scores =
     [Finite 1, Finite (4 / 5), Finite (3 / 5), Finite 0, Finite (- 1), Finite (- (3 / 5))]"

definition language_result :: result where
  "language_result =
     \<lparr>recommended_skills = [''python'', ''java'', ''go'', ''rust'', ''ruby''],
      recommended_users = [],
      learning_path = [''Foundation Skills'', ''python'', ''java'', ''go'', ''Advanced Mastery'']\<rparr>"

definition feedback_example :: py_dict where
  "feedback_example = [(''liked'', [''java'', ''go'']), (''disliked'', [''go'', ''c++''])]"

text \<open>
  Two stores that hold the arguments of the example call, at different indices and
  among different other objects.
\<close>

definition first_heap :: heap where
  "first_heap = \<lparr>lists = [[''python''], language_names, []], dicts = [], arrays = []\<rparr>"

definition second_heap :: heap where
  "second_heap =
     \<lparr>lists = [[''rust''], [], language_names, [''python'']],
      dicts = [feedback_example],
      arrays = [[NaN]]\<rparr>"

section \<open>Properties\<close>

lemma ebind_Inr_iff: "ebind m f = Inr y \<longleftrightarrow> (\<exists>x. m = Inr x \<and> f x = Inr y)"
  by (cases m) (simp_all add: ebind_def)

lemma get_recommendations_InrD:
  assumes "get_recommendations d us cat ex fb = Inr r"
  obtains sims recommended where
    "final_scores d us cat fb = Inr sims"
    "py_index_all cat (top_indices d sims) = Inr recommended"
    "r = \<lparr>recommended_skills = recommended, recommended_users = [],
          learning_path = generate_learning_path us recommended\<rparr>"
  using assms unfolding get_recommendations_def ebind_Inr_iff by blast

subsection \<open>The concrete sort is a sort\<close>

lemma set_insert_index: "set (insert_index a i js) = insert i (set js)"
  by (induction js) auto

lemma distinct_insert_index: "i \<notin> set js \<Longrightarrow> distinct js \<Longrightarrow> distinct (insert_index a i js)"
  by (induction js) (auto simp: set_insert_index)

lemma np_lt_trans: "np_lt x y \<Longrightarrow> np_lt y z \<Longrightarrow> np_lt x z"
  by (cases x; cases y; cases z) auto

lemma np_lt_total: "\<not> np_lt x y \<Longrightarrow> \<not> np_lt y z \<Longrightarrow> \<not> np_lt x z"
  by (cases x; cases y; cases z) auto

lemma np_lt_asym: "np_lt x y \<Longrightarrow> \<not> np_lt y x"
  by (cases x; cases y) auto

lemma sorted_insert_index:
  "sorted_wrt (\<lambda>i j. \<not> np_lt (a ! j) (a ! i)) js \<Longrightarrow>
   sorted_wrt (\<lambda>i j. \<not> np_lt (a ! j) (a ! i)) (insert_index a i js)"
proof (induction js)
  case Nil
  then show ?case by simp
next
  case (Cons j js)
  show ?case
  proof (cases "np_lt (a ! j) (a ! i)")
    case True
    with Cons show ?thesis
      by (auto simp: set_insert_index dest: np_lt_asym)
  next
    case False
    with Cons show ?thesis
      by (auto dest: np_lt_total)
  qed
qed


lemma foldr_insert_index:
  "distinct js \<Longrightarrow>
   distinct (foldr (insert_index a) js []) \<and>
   set (foldr (insert_index a) js []) = set js \<and>
   sorted_wrt (\<lambda>i j. \<not> np_lt (a ! j) (a ! i)) (foldr (insert_index a) js [])"
  by (induction js) (auto simp: set_insert_index distinct_insert_index sorted_insert_index)

lemma argsort_ok_stable_argsort: "argsort_ok stable_argsort"
  unfolding argsort_ok_def stable_argsort_def
  using foldr_insert_index [of "[0..<n]" for n] by simp

lemma argsort_table_deps [simp]: "argsort (table_deps tbl) = stable_argsort"
  by (simp add: table_deps_def)

subsection \<open>Scores\<close>

lemma feedback_step:
  assumes "i < length sims"
  shows "ebind (if skill \<in> set (dict_get fb ''liked'') then scale_at mul i 1.2 sims else Inr sims)
           (\<lambda>sims1. ebind (if skill \<in> set (dict_get fb ''disliked'') then scale_at mul i 0.8 sims1
                            else Inr sims1) f)
         = f (sims[i := rescaled mul fb skill (sims ! i)])"
  using assms by (simp add: ebind_def scale_at_def rescaled_def)

lemma feedback_loop_enumerate:
  assumes "k + length ys \<le> length sims"
  shows "\<exists>sims'. feedback_loop mul fb (enumerate k ys) sims = Inr sims' \<and>
           length sims' = length sims \<and>
           (\<forall>i<length sims. sims' ! i =
              (if k \<le> i \<and> i < k + length ys then rescaled mul fb (ys ! (i - k)) (sims ! i)
               else sims ! i))"
  using assms
proof (induction ys arbitrary: k sims)
  case Nil
  then show ?case by auto
next
  case (Cons y ys)
  define sims2 where "sims2 = sims[k := rescaled mul fb y (sims ! k)]"
  have k: "k < length sims" using Cons.prems by simp
  have step: "feedback_loop mul fb (enumerate k (y # ys)) sims = feedback_loop mul fb (enumerate (Suc k) ys) sims2"
    using k by (simp add: feedback_step sims2_def)
  have "Suc k + length ys \<le> length sims2" using Cons.prems by (simp add: sims2_def)
  from Cons.IH [OF this] obtain sims' where
    run: "feedback_loop mul fb (enumerate (Suc k) ys) sims2 = Inr sims'" and
    len: "length sims' = length sims2" and
    nth: "\<forall>i<length sims2. sims' ! i =
            (if Suc k \<le> i \<and> i < Suc k + length ys then rescaled mul fb (ys ! (i - Suc k)) (sims2 ! i)
             else sims2 ! i)"
    by blast
  have "sims' ! i =
          (if k \<le> i \<and> i < k + length (y # ys) then rescaled mul fb ((y # ys) ! (i - k)) (sims ! i)
           else sims ! i)" if "i < length sims" for i
  proof (cases "i = k")
    case True
    then show ?thesis using nth that by (simp add: sims2_def)
  next
    case False
    then show ?thesis using nth that by (auto simp: sims2_def nth_Cons')
  qed
  then show ?case using step run len by (simp add: sims2_def)
qed

lemma similarity_rows_Inr:
  "similarity_rows vs u = Inr sims \<Longrightarrow>
   length sims = length vs \<and>
   (\<forall>i<length vs. length (vs ! i) = length u \<and>
      sims ! i = np_divide (\<Sum>(a, b)\<leftarrow>zip (vs ! i) u. a * b) (np_norm (vs ! i) * np_norm u))"
proof (induction vs arbitrary: sims)
  case Nil
  then show ?case by simp
next
  case (Cons v vs)
  from Cons.prems obtain s rest where
    s: "similarity v u = Inr s" and rest: "similarity_rows vs u = Inr rest" and
    sims: "sims = s # rest"
    by (auto simp: ebind_Inr_iff)
  from s have "length v = length u \<and> s = np_divide (\<Sum>(a, b)\<leftarrow>zip v u. a * b) (np_norm v * np_norm u)"
    by (auto simp: similarity_def np_dot_def ebind_Inr_iff split: if_splits)
  with Cons.IH [OF rest] sims show ?case
    by (auto simp: nth_Cons')
qed

lemma similarity_rows_total:
  "list_all (\<lambda>v. length v = length u) vs \<Longrightarrow> \<exists>sims. similarity_rows vs u = Inr sims"
  by (induction vs) (auto simp: similarity_def np_dot_def ebind_def)

lemma similarities_length:
  "similarities d us cat = Inr sims \<Longrightarrow> length sims = length cat"
  by (auto simp: similarities_def dest: similarity_rows_Inr)

lemma apply_feedback_nth:
  assumes "length sims = length cat"
  shows "\<exists>sims'. apply_feedback mul feedback cat sims = Inr sims' \<and> length sims' = length cat \<and>
           (\<forall>i<length cat. sims' ! i =
              (case feedback of None \<Rightarrow> sims ! i | Some fb \<Rightarrow> rescaled mul fb (cat ! i) (sims ! i)))"
proof (cases feedback)
  case None
  then show ?thesis using assms by (simp add: apply_feedback_def)
next
  case (Some fb)
  show ?thesis
  proof (cases "fb = []")
    case True
    then show ?thesis using Some assms
      by (simp add: apply_feedback_def rescaled_def dict_get_def)
  next
    case False
    from feedback_loop_enumerate [of 0 cat sims mul fb] assms
    show ?thesis using Some False by (auto simp: apply_feedback_def)
  qed
qed

lemma final_scores_Inr:
  assumes "final_scores d us cat feedback = Inr scores"
  obtains sims where "similarities d us cat = Inr sims" "length sims = length cat"
    "length scores = length cat"
    "\<forall>i<length cat. scores ! i =
        (case feedback of None \<Rightarrow> sims ! i | Some fb \<Rightarrow> rescaled (float_mul d) fb (cat ! i) (sims ! i))"
proof -
  from assms obtain sims where sims: "similarities d us cat = Inr sims"
    and app: "apply_feedback (float_mul d) feedback cat sims = Inr scores"
    by (auto simp: final_scores_def ebind_Inr_iff)
  have len: "length sims = length cat" using sims by (rule similarities_length)
  from apply_feedback_nth [OF len, of "float_mul d" feedback] app
  have "length scores = length cat \<and> (\<forall>i<length cat. scores ! i =
        (case feedback of None \<Rightarrow> sims ! i | Some fb \<Rightarrow> rescaled (float_mul d) fb (cat ! i) (sims ! i)))"
    by auto
  with sims len that show thesis by blast
qed

lemma final_scores_None: "final_scores d us cat None = similarities d us cat"
  by (cases "similarities d us cat") (simp_all add: final_scores_def ebind_def apply_feedback_def)

lemma final_scores_total:
  assumes "similarities d us cat = Inr sims"
  shows "\<exists>scores. final_scores d us cat feedback = Inr scores"
  using apply_feedback_nth [OF similarities_length [OF assms], of "float_mul d" feedback] assms
  by (auto simp: final_scores_def ebind_def)

lemma py_index_all_Inr:
  "\<forall>i\<in>set idx. i < length xs \<Longrightarrow> py_index_all xs idx = Inr (map (\<lambda>i. xs ! i) idx)"
  by (induction idx) (simp_all add: py_index_def ebind_def)

lemma top_indices_props:
  assumes ok: "argsort_ok (argsort d)"
  shows "distinct (top_indices d a)"
    and "set (top_indices d a) \<subseteq> {0..<length a}"
    and "length (top_indices d a) = min 5 (length a)"
    and "sorted_wrt (\<lambda>i j. \<not> np_lt (a ! i) (a ! j)) (top_indices d a)"
    and "\<forall>j<length a. j \<notin> set (top_indices d a) \<longrightarrow>
           (\<forall>i\<in>set (top_indices d a). \<not> np_lt (a ! i) (a ! j))"
proof -
  define s where "s = argsort d a"
  define k where "k = length a - 5"
  have d: "distinct s" and st: "set s = {0..<length a}"
    and so: "sorted_wrt (\<lambda>i j. \<not> np_lt (a ! j) (a ! i)) s"
    using ok unfolding argsort_ok_def s_def by blast+
  have len: "length s = length a"
    using distinct_card [OF d] st by simp
  have top: "top_indices d a = rev (drop k s)"
    unfolding top_indices_def last_n_def s_def [symmetric] k_def len ..
  show "distinct (top_indices d a)" using d by (simp add: top)
  show "set (top_indices d a) \<subseteq> {0..<length a}"
    using set_drop_subset [of k s] st by (simp add: top)
  show "length (top_indices d a) = min 5 (length a)"
    by (simp add: top len k_def)
  have split: "sorted_wrt (\<lambda>i j. \<not> np_lt (a ! j) (a ! i)) (take k s @ drop k s)"
    using so by simp
  show "sorted_wrt (\<lambda>i j. \<not> np_lt (a ! i) (a ! j)) (top_indices d a)"
    using split unfolding sorted_wrt_append by (simp add: top sorted_wrt_rev)
  show "\<forall>j<length a. j \<notin> set (top_indices d a) \<longrightarrow>
           (\<forall>i\<in>set (top_indices d a). \<not> np_lt (a ! i) (a ! j))"
  proof (intro allI impI ballI)
    fix j i
    assume j: "j < length a" and nj: "j \<notin> set (top_indices d a)"
      and i: "i \<in> set (top_indices d a)"
    have "set s = set (take k s) \<union> set (drop k s)"
      using set_append [of "take k s" "drop k s"] by simp
    with j st nj have "j \<in> set (take k s)" by (auto simp: top)
    moreover from i have "i \<in> set (drop k s)" by (simp add: top)
    ultimately show "\<not> np_lt (a ! i) (a ! j)"
      using split unfolding sorted_wrt_append by blast
  qed
qed

lemma get_recommendations_eq:
  assumes ok: "argsort_ok (argsort d)"
    and fin: "final_scores d us cat fb = Inr scores"
  shows "get_recommendations d us cat ex fb =
           Inr \<lparr>recommended_skills = map (\<lambda>i. cat ! i) (top_indices d scores),
                recommended_users = [],
                learning_path =
                  generate_learning_path us (map (\<lambda>i. cat ! i) (top_indices d scores))\<rparr>"
proof -
  from fin have len: "length scores = length cat" by (rule final_scores_Inr)
  have "\<forall>i\<in>set (top_indices d scores). i < length cat"
    using top_indices_props(2) [OF ok, of scores] len by auto
  then have "py_index_all cat (top_indices d scores) = Inr (map (\<lambda>i. cat ! i) (top_indices d scores))"
    by (rule py_index_all_Inr)
  then show ?thesis using fin by (simp add: get_recommendations_def ebind_def)
qed

subsection \<open>Zero divisors, and when a call returns\<close>

text \<open>
  A zero divisor means a zero vector on one side, hence a zero dot product: the
  quotient of line 9 is \<open>0 / 0\<close> there, never a nonzero number over zero.
\<close>

lemma sum_list_all_zero:
  fixes f :: "'a \<Rightarrow> real"
  shows "\<forall>x\<in>set xs. f x = 0 \<Longrightarrow> (\<Sum>x\<leftarrow>xs. f x) = 0"
  by (induction xs) simp_all

lemma sum_squares_zero:
  fixes v :: "real list"
  shows "(\<Sum>a\<leftarrow>v. a * a) = 0 \<Longrightarrow> a \<in> set v \<Longrightarrow> a = 0"
proof (induction v)
  case Nil
  then show ?case by simp
next
  case (Cons x v)
  have nonneg: "0 \<le> (\<Sum>a\<leftarrow>v. a * a)"
    by (rule sum_list_nonneg) auto
  have sq: "0 \<le> x * x" by simp
  have total: "x * x + (\<Sum>a\<leftarrow>v. a * a) = 0" using Cons.prems(1) by simp
  from nonneg sq total have x: "x * x = 0" by linarith
  from nonneg sq total have rest: "(\<Sum>a\<leftarrow>v. a * a) = 0" by linarith
  from x have "x = 0" by simp
  with Cons.IH [OF rest] Cons.prems(2) show ?case by auto
qed

lemma np_norm_zero: "np_norm v = 0 \<Longrightarrow> a \<in> set v \<Longrightarrow> a = 0"
  by (rule sum_squares_zero [of v]) (simp_all add: np_norm_def)

lemma zero_divisor_zero_dot:
  assumes "np_norm v * np_norm u = 0"
  shows "(\<Sum>(a, b)\<leftarrow>zip v u. a * b) = 0"
proof (rule sum_list_all_zero, clarify)
  fix a b
  assume ab: "(a, b) \<in> set (zip v u)"
  from assms have "np_norm v = 0 \<or> np_norm u = 0" by simp
  then show "a * b = 0"
  proof
    assume "np_norm v = 0"
    then have "a = 0" using set_zip_leftD [OF ab] by (rule np_norm_zero)
    then show ?thesis by simp
  next
    assume "np_norm u = 0"
    then have "b = 0" using set_zip_rightD [OF ab] by (rule np_norm_zero)
    then show ?thesis by simp
  qed
qed

lemma similarities_nth:
  assumes "similarities d us cat = Inr sims" and "i < length cat"
  shows "sims ! i =
           np_divide (\<Sum>(a, b)\<leftarrow>zip (encode_skill d (cat ! i)) (encode_user d us). a * b)
             (np_norm (encode_skill d (cat ! i)) * np_norm (encode_user d us))"
  using similarity_rows_Inr [of "map (encode_skill d) cat" "encode_user d us" sims] assms
  by (simp add: similarities_def)

lemma similarities_total:
  assumes "list_all (\<lambda>name. length (encode_skill d name) = length (encode_user d us)) cat"
  shows "\<exists>sims. similarities d us cat = Inr sims"
  using assms similarity_rows_total [of "encode_user d us" "map (encode_skill d) cat"]
  by (simp add: similarities_def list_all_iff)

lemma get_recommendations_total:
  assumes "argsort_ok (argsort d)"
    and "list_all (\<lambda>name. length (encode_skill d name) = length (encode_user d us)) cat"
  shows "\<exists>r. get_recommendations d us cat ex fb = Inr r"
proof -
  from similarities_total [OF assms(2)] obtain sims where "similarities d us cat = Inr sims" ..
  from final_scores_total [OF this] obtain scores where "final_scores d us cat fb = Inr scores" ..
  from get_recommendations_eq [OF assms(1) this] show ?thesis by blast
qed

lemma feedback_pointwise:
  assumes "final_scores d us cat None = Inr base"
    and "final_scores d us cat (Some fb) = Inr adj"
    and "i < length cat"
  shows "adj ! i = rescaled (float_mul d) fb (cat ! i) (base ! i)"
proof -
  from assms(1) obtain sims where s: "similarities d us cat = Inr sims"
    and b: "\<forall>i<length cat. base ! i = (case None :: py_dict option of None \<Rightarrow> sims ! i
              | Some fb \<Rightarrow> rescaled (float_mul d) fb (cat ! i) (sims ! i))"
    by (rule final_scores_Inr)
  from assms(2) obtain sims' where s': "similarities d us cat = Inr sims'"
    and a: "\<forall>i<length cat. adj ! i = (case Some fb of None \<Rightarrow> sims' ! i
              | Some fb \<Rightarrow> rescaled (float_mul d) fb (cat ! i) (sims' ! i))"
    by (rule final_scores_Inr)
  from s s' have "sims' = sims" by simp
  with a b assms(3) show ?thesis by simp
qed

subsection \<open>Concrete calls\<close>



lemma exact_composition: "np_mul (*) (np_mul (*) s 1.2) 0.8 = np_mul (*) s 0.96"
  by (cases s) simp_all

lemmas score_defs = final_scores_def similarities_def table_deps_def languages_def
  table_encoder_def sum_pool_def similarity_def np_dot_def np_norm_def np_divide_def ebind_def
  apply_feedback_def scale_at_def dict_get_def

lemma argsort_ok_table_deps: "argsort_ok (argsort (table_deps tbl))"
  by (simp add: argsort_ok_stable_argsort)

lemma language_final_scores:
  "final_scores (table_deps languages) [''python''] language_names None = Inr language_scores"
  by (simp add: score_defs language_names_def language_scores_def)

lemma language_top_indices:
  "top_indices (table_deps languages) language_scores = [0, 1, 2, 3, 5]"
  by (simp add: top_indices_def last_n_def stable_argsort_def language_scores_def upt_rec)

lemma language_call:
  "get_recommendations (table_deps languages) [''python''] language_names [] None =
     Inr language_result"
  unfolding get_recommendations_eq [OF argsort_ok_table_deps language_final_scores]
    language_top_indices
  by (simp add: generate_learning_path_def language_names_def language_result_def)

lemma three_skills_scores:
  "final_scores (table_deps languages) [''python'', ''c++'', ''python''] [''java'', ''go''] None =
     Inr [Finite (4 / 5), Finite (3 / 5)]"
  by (simp add: score_defs)

lemma three_skills_top:
  "top_indices (table_deps languages) [Finite (4 / 5), Finite (3 / 5)] = [0, 1]"
  by (simp add: top_indices_def last_n_def stable_argsort_def upt_rec)

lemma three_skills_call:
  "get_recommendations (table_deps languages) [''python'', ''c++'', ''python''] [''java'', ''go'']
      [] None =
     Inr \<lparr>recommended_skills = [''java'', ''go''],
          recommended_users = [],
          learning_path = [''Foundation Skills'', ''Intermediate Topics'', ''java'', ''go'',
                           ''Advanced Mastery'']\<rparr>"
  unfolding get_recommendations_eq [OF argsort_ok_table_deps three_skills_scores]
    three_skills_top
  by (simp add: generate_learning_path_def)

lemma marker_scores:
  "final_scores (table_deps [(''python'', [1, 0]), (''Intermediate Topics'', [4, 3])])
      [''python''] [''Intermediate Topics''] None = Inr [Finite (4 / 5)]"
  by (simp add: score_defs)

lemma marker_top:
  "top_indices (table_deps [(''python'', [1, 0]), (''Intermediate Topics'', [4, 3])])
      [Finite (4 / 5)] = [0]"
  by (simp add: top_indices_def last_n_def stable_argsort_def upt_rec)

lemma marker_call:
  "get_recommendations (table_deps [(''python'', [1, 0]), (''Intermediate Topics'', [4, 3])])
      [''python''] [''Intermediate Topics''] [] None =
     Inr \<lparr>recommended_skills = [''Intermediate Topics''],
          recommended_users = [],
          learning_path = [''Foundation Skills'', ''Intermediate Topics'', ''Advanced Mastery'']\<rparr>"
  unfolding get_recommendations_eq [OF argsort_ok_table_deps marker_scores] marker_top
  by (simp add: generate_learning_path_def)

lemma unknown_skill_scores:
  "similarities (table_deps languages) [''python''] [''python'', ''cobol''] = Inr [Finite 1, NaN]"
  by (simp add: score_defs)

lemma unknown_skill_top:
  "top_indices (table_deps languages) [Finite 1, NaN] = [1, 0]"
  by (simp add: top_indices_def last_n_def stable_argsort_def upt_rec)

lemma unknown_skill_call:
  "get_recommendations (table_deps languages) [''python''] [''python'', ''cobol''] [] None =
     Inr \<lparr>recommended_skills = [''cobol'', ''python''],
          recommended_users = [],
          learning_path = [''Foundation Skills'', ''cobol'', ''python'', ''Advanced Mastery'']\<rparr>"
  unfolding get_recommendations_eq
      [OF argsort_ok_table_deps unknown_skill_scores [folded final_scores_None]]
    unknown_skill_top
  by (simp add: generate_learning_path_def)

lemma feedback_base_scores:
  "final_scores (table_deps languages) [''python''] [''python'', ''java'', ''go'', ''c++''] None =
     Inr [Finite 1, Finite (4 / 5), Finite (3 / 5), Finite (- 1)]"
  by (simp add: score_defs)

lemma feedback_adjusted_scores:
  "final_scores (table_deps languages) [''python''] [''python'', ''java'', ''go'', ''c++'']
      (Some feedback_example) =
     Inr [Finite 1, Finite (24 / 25), Finite (72 / 125), Finite (- (4 / 5))]"
  by (simp add: score_defs feedback_example_def)

subsection \<open>The call on the store computes what \<open>get_recommendations\<close> computes\<close>

lemmas heap_ops = hreturn_def hbind_def lift_def new_list_def read_list_def write_list_def
  read_dict_def new_array_def read_array_def write_array_def

lemma feedback_loop_heap_eq:
  assumes "r < length (arrays h)"
    and "feedback_loop mul (dicts h ! fr) items (arrays h ! r) = Inr a"
  shows "feedback_loop_heap mul fr r items h = (Inr (), h\<lparr>arrays := (arrays h)[r := a]\<rparr>)"
  using assms
proof (induction items arbitrary: h)
  case Nil
  then have "a = arrays h ! r" by simp
  then show ?case by (simp add: hreturn_def)
next
  case (Cons item items)
  obtain i skill where item: "item = (i, skill)" by (cases item)
  from Cons.prems(2) obtain a1 a2 where
    s1: "(if skill \<in> set (dict_get (dicts h ! fr) ''liked'') then scale_at mul i 1.2 (arrays h ! r)
          else Inr (arrays h ! r)) = Inr a1"
    and s2: "(if skill \<in> set (dict_get (dicts h ! fr) ''disliked'') then scale_at mul i 0.8 a1
          else Inr a1) = Inr a2"
    and rest: "feedback_loop mul (dicts h ! fr) items a2 = Inr a"
    unfolding item by (auto simp: ebind_Inr_iff)
  define h2 where "h2 = h\<lparr>arrays := (arrays h)[r := a2]\<rparr>"
  have r2: "r < length (arrays h2)" and d2: "dicts h2 = dicts h" and a2: "arrays h2 ! r = a2"
    using Cons.prems(1) by (simp_all add: h2_def)
  have step: "feedback_loop_heap mul fr r (item # items) h = feedback_loop_heap mul fr r items h2"
    unfolding item using s1 s2 Cons.prems(1)
    by (auto simp: heap_ops scale_in_place_def h2_def split: if_splits)
  have "feedback_loop_heap mul fr r items h2 = (Inr (), h2\<lparr>arrays := (arrays h2)[r := a]\<rparr>)"
    using Cons.IH [OF r2] rest by (simp add: d2 a2)
  then show ?case unfolding step by (simp add: h2_def)
qed


lemma apply_feedback_total:
  assumes "length sims = length cat"
  shows "\<exists>scores. apply_feedback mul fb cat sims = Inr scores"
  using apply_feedback_nth [OF assms, of mul fb] by blast

lemma generate_learning_path_heap_eq:
  assumes "u < length (lists h)" and "r < length (lists h)"
  shows "generate_learning_path_heap u r h =
           (Inr (length (lists h)),
            h\<lparr>lists := lists h @ [generate_learning_path (lists h ! u) (lists h ! r)]\<rparr>)"
  using assms
  by (simp add: generate_learning_path_heap_def generate_learning_path_def heap_ops
      append_list_def extend_list_def nth_append Let_def)

lemma get_recommendations_heap_eq:
  assumes "valid_args h u c e f"
  shows "get_recommendations_heap d u c e f h =
           (case final_scores d (lists h ! u) (lists h ! c) (map_option (\<lambda>r. dicts h ! r) f) of
              Inl err \<Rightarrow> (Inl err, h)
            | Inr scores \<Rightarrow>
                (case py_index_all (lists h ! c) (top_indices d scores) of
                   Inl err \<Rightarrow> (Inl err, h\<lparr>arrays := arrays h @ [scores]\<rparr>)
                 | Inr recommended \<Rightarrow>
                     (Inr \<lparr>ref_recommended_skills = length (lists h),
                           ref_recommended_users = length (lists h) + 1,
                           ref_learning_path = length (lists h) + 2\<rparr>,
                      h\<lparr>arrays := arrays h @ [scores],
                        lists := lists h @
                          [recommended, [],
                           generate_learning_path (lists h ! u) recommended]\<rparr>)))"
proof (cases "similarities d (lists h ! u) (lists h ! c)")
  case (Inl err)
  then show ?thesis
    by (simp add: get_recommendations_heap_def heap_ops final_scores_def ebind_def)
next
  case (Inr sims0)
  have len: "length sims0 = length (lists h ! c)"
    using Inr by (rule similarities_length)
  define fb where "fb = map_option (\<lambda>r. dicts h ! r) f"
  from apply_feedback_total [OF len] obtain scores where
    app: "apply_feedback (float_mul d) fb (lists h ! c) sims0 = Inr scores" by blast
  have fin: "final_scores d (lists h ! u) (lists h ! c) fb = Inr scores"
    using Inr app by (simp add: final_scores_def ebind_def)
  define h1 where "h1 = h\<lparr>arrays := arrays h @ [sims0]\<rparr>"
  define h2 where "h2 = h\<lparr>arrays := arrays h @ [scores]\<rparr>"
  have loop: "(case f of
              None \<Rightarrow> hreturn ()
            | Some fr \<Rightarrow>
                hbind (read_dict fr) (\<lambda>fb.
                  if fb = [] then hreturn ()
                  else feedback_loop_heap (float_mul d) fr (length (arrays h))
                         (enumerate 0 (lists h ! c)))) h1 = (Inr (), h2)"
  proof (cases f)
    case None
    then show ?thesis using app by (simp add: fb_def apply_feedback_def heap_ops h1_def h2_def)
  next
    case (Some fr)
    show ?thesis
    proof (cases "dicts h ! fr = []")
      case True
      then show ?thesis using app Some
        by (simp add: fb_def apply_feedback_def heap_ops h1_def h2_def)
    next
      case False
      have "feedback_loop (float_mul d) (dicts h1 ! fr) (enumerate 0 (lists h ! c))
              (arrays h1 ! length (arrays h)) = Inr scores"
        using app Some False by (simp add: fb_def apply_feedback_def h1_def)
      from feedback_loop_heap_eq [OF _ this]
      have "feedback_loop_heap (float_mul d) fr (length (arrays h)) (enumerate 0 (lists h ! c)) h1
              = (Inr (), h1\<lparr>arrays := (arrays h1)[length (arrays h) := scores]\<rparr>)"
        by (simp add: h1_def)
      then show ?thesis using Some False by (simp add: heap_ops h1_def h2_def)
    qed
  qed
  have valid: "u < length (lists h)" "c < length (lists h)"
    using assms by (simp_all add: valid_args_def)
  show ?thesis
  proof (cases "py_index_all (lists h ! c) (top_indices d scores)")
    case (Inl err)
    then show ?thesis
      unfolding get_recommendations_heap_def
      using Inr loop fin
      by (simp add: heap_ops fb_def [symmetric] h1_def [symmetric] h2_def)
  next
    case (Inr recommended)
    define h3 where "h3 = h2\<lparr>lists := lists h @ [recommended, []]\<rparr>"
    have path: "generate_learning_path_heap u (length (lists h)) h3 =
        (Inr (length (lists h) + 2),
         h3\<lparr>lists := lists h3 @ [generate_learning_path (lists h ! u) recommended]\<rparr>)"
      using generate_learning_path_heap_eq [of u h3 "length (lists h)"] valid
      by (simp add: h3_def h2_def nth_append)
    show ?thesis
      unfolding get_recommendations_heap_def
      using \<open>similarities d (lists h ! u) (lists h ! c) = Inr sims0\<close> loop fin Inr path
      by (simp add: heap_ops fb_def [symmetric] h1_def [symmetric] h2_def h3_def)
  qed
qed

lemma get_recommendations_heap_refines:
  assumes "valid_args h u c e f"
  shows "outcome (get_recommendations_heap d u c e f h) =
           get_recommendations d (lists h ! u) (lists h ! c) (lists h ! e)
             (map_option (\<lambda>r. dicts h ! r) f)"
    and "preserved h (snd (get_recommendations_heap d u c e f h))"
proof -
  show "outcome (get_recommendations_heap d u c e f h) =
           get_recommendations d (lists h ! u) (lists h ! c) (lists h ! e)
             (map_option (\<lambda>r. dicts h ! r) f)"
    unfolding get_recommendations_heap_eq [OF assms] get_recommendations_def
    by (simp add: outcome_def deref_def ebind_def nth_append split: sum.splits)
  show "preserved h (snd (get_recommendations_heap d u c e f h))"
    unfolding get_recommendations_heap_eq [OF assms]
    by (simp add: preserved_def split: sum.splits)
qed

section \<open>The claims\<close>

text \<open>
  C1. The five best by final score. For every call that returns, with a sort that
  \<open>argsort_ok\<close> accepts and final (feedback-adjusted) scores that are all numbers:
  \<open>recommended_skills\<close> lists the catalog entries at \<open>min 5 (length cat)\<close> distinct
  indices of the catalog, in descending order of final score, and no catalog entry that is
  left out has a final score above that of a listed one. (The hypotheses that the two
  lists are non-empty are not needed.)
\<close>

theorem C1_top_five_by_score:
  assumes "argsort_ok (argsort d)"
    and "get_recommendations d us cat ex fb = Inr r"
    and "final_scores d us cat fb = Inr scores"
    and "list_all (\<lambda>s. s \<noteq> NaN) scores"
  shows "\<exists>idx. recommended_skills r = map (\<lambda>i. cat ! i) idx \<and>
           distinct idx \<and> (\<forall>i\<in>set idx. i < length cat) \<and>
           length idx = min 5 (length cat) \<and>
           sorted_wrt (\<lambda>i j. the_real (scores ! i) \<ge> the_real (scores ! j)) idx \<and>
           (\<forall>j<length cat. j \<notin> set idx \<longrightarrow>
              (\<forall>i\<in>set idx. the_real (scores ! j) \<le> the_real (scores ! i)))"
proof -
  from assms(3) have len: "length scores = length cat" by (rule final_scores_Inr)
  have fin: "\<exists>x. scores ! i = Finite x" if "i < length cat" for i
    using assms(4) that len by (cases "scores ! i") (auto simp: list_all_length)
  have le: "\<not> np_lt (scores ! i) (scores ! j) \<longleftrightarrow> the_real (scores ! j) \<le> the_real (scores ! i)"
    if "i < length cat" "j < length cat" for i j
    using fin [OF that(1)] fin [OF that(2)] by auto
  define idx where "idx = top_indices d scores"
  have r: "recommended_skills r = map (\<lambda>i. cat ! i) idx"
    using get_recommendations_eq [OF assms(1) assms(3), of ex] assms(2) by (auto simp: idx_def)
  have d: "distinct idx" and sub: "\<forall>i\<in>set idx. i < length cat"
    and n: "length idx = min 5 (length cat)"
    using top_indices_props(1-3) [OF assms(1), of scores] len by (auto simp: idx_def)
  have "sorted_wrt (\<lambda>i j. \<not> np_lt (scores ! i) (scores ! j)) idx"
    using top_indices_props(4) [OF assms(1), of scores] by (simp add: idx_def)
  then have desc: "sorted_wrt (\<lambda>i j. the_real (scores ! i) \<ge> the_real (scores ! j)) idx"
    using sub le by (auto elim!: sorted_wrt_mono_rel [rotated])
  have rest: "\<forall>j<length cat. j \<notin> set idx \<longrightarrow>
                (\<forall>i\<in>set idx. the_real (scores ! j) \<le> the_real (scores ! i))"
    using top_indices_props(5) [OF assms(1), of scores] len sub le by (auto simp: idx_def)
  from r d sub n desc rest show ?thesis by blast
qed

theorem C1_top_five_by_score_witness:
  "argsort_ok (argsort (table_deps languages)) \<and>
   get_recommendations (table_deps languages) [''python''] language_names [] None =
     Inr language_result \<and>
   final_scores (table_deps languages) [''python''] language_names None = Inr language_scores \<and>
   list_all (\<lambda>s. s \<noteq> NaN) language_scores \<and>
   (\<exists>idx. recommended_skills language_result = map (\<lambda>i. language_names ! i) idx \<and>
      distinct idx \<and> length idx = 5 \<and>
      sorted_wrt (\<lambda>i j. the_real (language_scores ! i) \<ge> the_real (language_scores ! j)) idx)"
proof -
  have fin: "list_all (\<lambda>s. s \<noteq> NaN) language_scores"
    by (simp add: language_scores_def)
  have len: "min 5 (length language_names) = 5"
    by (simp add: language_names_def)
  from C1_top_five_by_score [OF argsort_ok_table_deps language_call language_final_scores fin]
  obtain idx where
    "recommended_skills language_result = map (\<lambda>i. language_names ! i) idx"
    "distinct idx" "length idx = 5"
    "sorted_wrt (\<lambda>i j. the_real (language_scores ! i) \<ge> the_real (language_scores ! j)) idx"
    unfolding len by blast
  then have "\<exists>idx. recommended_skills language_result = map (\<lambda>i. language_names ! i) idx \<and>
      distinct idx \<and> length idx = 5 \<and>
      sorted_wrt (\<lambda>i j. the_real (language_scores ! i) \<ge> the_real (language_scores ! j)) idx"
    by blast
  with argsort_ok_table_deps language_call language_final_scores fin show ?thesis by blast
qed

text \<open>
  C2. Length and membership. For every call that returns, \<open>recommended_skills\<close> has
  length \<open>min 5 (length all_skills)\<close> and each of its elements is a member of
  \<open>all_skills\<close>. By \<open>get_recommendations_total\<close> the call returns whenever the encoder's
  vectors have one dimension.
\<close>

theorem C2_length_and_membership:
  assumes "argsort_ok (argsort d)"
    and "get_recommendations d us cat ex fb = Inr r"
  shows "length (recommended_skills r) = min 5 (length cat) \<and>
         (\<forall>s\<in>set (recommended_skills r). s \<in> set cat)"
proof -
  from assms(2) obtain scores where fin: "final_scores d us cat fb = Inr scores"
    by (rule get_recommendations_InrD)
  from fin have len: "length scores = length cat" by (rule final_scores_Inr)
  have r: "recommended_skills r = map (\<lambda>i. cat ! i) (top_indices d scores)"
    using get_recommendations_eq [OF assms(1) fin, of ex] assms(2) by auto
  have "length (top_indices d scores) = min 5 (length cat)"
    using top_indices_props(3) [OF assms(1), of scores] len by simp
  moreover have "\<forall>i\<in>set (top_indices d scores). i < length cat"
    using top_indices_props(2) [OF assms(1), of scores] len by auto
  ultimately show ?thesis by (auto simp: r)
qed

theorem C2_length_and_membership_witness:
  "argsort_ok (argsort (table_deps languages)) \<and>
   get_recommendations (table_deps languages) [''python''] language_names [] None =
     Inr language_result \<and>
   length (recommended_skills language_result) = 5 \<and>
   set (recommended_skills language_result) \<subseteq> set language_names"
proof -
  have len: "min 5 (length language_names) = 5"
    by (simp add: language_names_def)
  from C2_length_and_membership [OF argsort_ok_table_deps language_call]
  have "length (recommended_skills language_result) = 5"
    and "set (recommended_skills language_result) \<subseteq> set language_names"
    unfolding len by blast+
  with argsort_ok_table_deps language_call show ?thesis by blast
qed




text \<open>
  C4. The learning path of every call that returns is \<open>Foundation Skills\<close>, then
  \<open>Intermediate Topics\<close> if the user has more than two skills, then the first three
  recommended skills (fewer if there are fewer), then \<open>Advanced Mastery\<close>; it starts with
  \<open>Foundation Skills\<close> and ends with \<open>Advanced Mastery\<close>.
\<close>

theorem C4_learning_path:
  assumes "get_recommendations d us cat ex fb = Inr r"
  shows "learning_path r =
           [''Foundation Skills''] @
           (if length us > 2 then [''Intermediate Topics''] else []) @
           take 3 (recommended_skills r) @
           [''Advanced Mastery''] \<and>
         hd (learning_path r) = ''Foundation Skills'' \<and>
         last (learning_path r) = ''Advanced Mastery''"
  using assms by (rule get_recommendations_InrD) (simp add: generate_learning_path_def Let_def)

theorem C4_learning_path_witness:
  "get_recommendations (table_deps languages) [''python'', ''c++'', ''python''] [''java'', ''go'']
      [] None =
     Inr \<lparr>recommended_skills = [''java'', ''go''],
          recommended_users = [],
          learning_path = [''Foundation Skills'', ''Intermediate Topics'', ''java'', ''go'',
                           ''Advanced Mastery'']\<rparr> \<and>
   [''Foundation Skills'', ''Intermediate Topics'', ''java'', ''go'', ''Advanced Mastery''] =
     [''Foundation Skills''] @
     (if length [''python'', ''c++'', ''python''] > 2 then [''Intermediate Topics''] else []) @
     take 3 [''java'', ''go''] @ [''Advanced Mastery'']"
  using C4_learning_path [OF three_skills_call] three_skills_call by simp

text \<open>
  C5, as amended. The learning path of every call that returns contains
  \<open>Intermediate Topics\<close> if and only if the user has more than two skills or
  \<open>Intermediate Topics\<close> is itself one of the first three recommended skill names.
\<close>

theorem C5_intermediate_topics:
  assumes "get_recommendations d us cat ex fb = Inr r"
  shows "''Intermediate Topics'' \<in> set (learning_path r) \<longleftrightarrow>
           length us > 2 \<or> ''Intermediate Topics'' \<in> set (take 3 (recommended_skills r))"
  using assms by (rule get_recommendations_InrD) (simp add: generate_learning_path_def Let_def)

theorem C5_intermediate_topics_witness:
  "get_recommendations (table_deps languages) [''python''] language_names [] None =
     Inr language_result \<and>
   ''Intermediate Topics'' \<notin> set (learning_path language_result) \<and>
   \<not> length [''python''] > 2 \<and>
   ''Intermediate Topics'' \<notin> set (take 3 (recommended_skills language_result))"
  using C5_intermediate_topics [OF language_call] language_call
  by (simp add: language_result_def)

text \<open>
  C5 as stated fails: a catalog skill may be named \<open>Intermediate Topics\<close>. With one
  user skill and that catalog entry recommended, the learning path contains the string
  although the user has no more than two skills.
\<close>

theorem C5_skill_named_like_marker:
  "get_recommendations (table_deps [(''python'', [1, 0]), (''Intermediate Topics'', [4, 3])])
      [''python''] [''Intermediate Topics''] [] None =
     Inr \<lparr>recommended_skills = [''Intermediate Topics''],
          recommended_users = [],
          learning_path = [''Foundation Skills'', ''Intermediate Topics'', ''Advanced Mastery'']\<rparr> \<and>
   ''Intermediate Topics'' \<in>
     set [''Foundation Skills'', ''Intermediate Topics'', ''Advanced Mastery''] \<and>
   \<not> length [''python''] > 2"
  using marker_call by simp

text \<open>
  C6. The division of line 9 is not guarded against a zero divisor. Whenever the
  product of the two norms is zero for a catalog entry (and the vectors have one
  dimension, so that \<open>np.dot\<close> raises nothing), the score of that entry is the \<open>nan\<close> of
  a division by zero, and the call raises no error: it returns a result. The concrete
  call has such an input: the catalog skill \<open>cobol\<close> has the zero vector, and is
  recommended first, since \<open>nan\<close> sorts last.
\<close>

theorem C6_zero_norm_unguarded:
  assumes "argsort_ok (argsort d)"
    and "list_all (\<lambda>name. length (encode_skill d name) = length (encode_user d us)) cat"
    and "i < length cat"
    and "np_norm (encode_skill d (cat ! i)) * np_norm (encode_user d us) = 0"
  shows "\<exists>sims r. similarities d us cat = Inr sims \<and> sims ! i = NaN \<and>
           get_recommendations d us cat ex fb = Inr r"
proof -
  from similarities_total [OF assms(2)] obtain sims where
    sims: "similarities d us cat = Inr sims" ..
  have "sims ! i = NaN"
    using similarities_nth [OF sims assms(3)] assms(4) by (simp add: np_divide_def)
  moreover from get_recommendations_total [OF assms(1,2)] obtain r where
    "get_recommendations d us cat ex fb = Inr r" ..
  ultimately show ?thesis using sims by blast
qed

theorem C6_zero_norm_unguarded_witness:
  "argsort_ok (argsort (table_deps languages)) \<and>
   list_all (\<lambda>name. length (encode_skill (table_deps languages) name) =
                    length (encode_user (table_deps languages) [''python'']))
     [''python'', ''cobol''] \<and>
   (1 :: nat) < length [''python'', ''cobol''] \<and>
   np_norm (encode_skill (table_deps languages) ''cobol'') *
     np_norm (encode_user (table_deps languages) [''python'']) = 0 \<and>
   similarities (table_deps languages) [''python''] [''python'', ''cobol''] =
     Inr [Finite 1, NaN] \<and>
   get_recommendations (table_deps languages) [''python''] [''python'', ''cobol''] [] None =
     Inr \<lparr>recommended_skills = [''cobol'', ''python''],
          recommended_users = [],
          learning_path = [''Foundation Skills'', ''cobol'', ''python'', ''Advanced Mastery'']\<rparr>"
proof -
  have shapes: "list_all (\<lambda>name. length (encode_skill (table_deps languages) name) =
                    length (encode_user (table_deps languages) [''python'']))
     [''python'', ''cobol'']"
    by (simp add: table_deps_def table_encoder_def languages_def sum_pool_def)
  have i: "(1 :: nat) < length [''python'', ''cobol'']" by simp
  have zero: "np_norm (encode_skill (table_deps languages) ([''python'', ''cobol''] ! 1)) *
     np_norm (encode_user (table_deps languages) [''python'']) = 0"
    by (simp add: table_deps_def table_encoder_def languages_def np_norm_def)
  from C6_zero_norm_unguarded [OF argsort_ok_table_deps shapes i zero, of "[]" None]
  have "\<exists>r. get_recommendations (table_deps languages) [''python''] [''python'', ''cobol''] [] None
          = Inr r"
    by blast
  with argsort_ok_table_deps shapes i zero unknown_skill_scores unknown_skill_call
  show ?thesis by simp
qed

text \<open>
  C7. The \<open>recommended_users\<close> field of the result of every call that returns is the
  empty list.
\<close>

theorem C7_no_recommended_users:
  assumes "get_recommendations d us cat ex fb = Inr r"
  shows "recommended_users r = []"
  using assms by (rule get_recommendations_InrD) simp

theorem C7_no_recommended_users_witness:
  "get_recommendations (table_deps languages) [''python''] language_names [] None =
     Inr language_result \<and>
   recommended_users language_result = []"
  using C7_no_recommended_users [OF language_call] language_call by simp

text \<open>
  C8. Determinism and no side effect, on the store. Two calls, each in a store of its
  own, whose arguments refer to objects with the same contents (user skills, catalog,
  exchanges, feedback) have the same outcome: the same three lists in the result, or
  the same error. This holds whatever else the stores hold and wherever the arguments
  lie. Each call leaves every object that was in its store as it was; it only adds the
  objects it creates. The encoder, the sort and the product of doubles are functions of
  their arguments, as the spec requires of the first and NumPy provides for the others.
\<close>

theorem C8_deterministic:
  assumes "valid_args h1 u1 c1 e1 f1"
    and "valid_args h2 u2 c2 e2 f2"
    and "lists h1 ! u1 = lists h2 ! u2"
    and "lists h1 ! c1 = lists h2 ! c2"
    and "lists h1 ! e1 = lists h2 ! e2"
    and "map_option (\<lambda>r. dicts h1 ! r) f1 = map_option (\<lambda>r. dicts h2 ! r) f2"
  shows "outcome (get_recommendations_heap d u1 c1 e1 f1 h1) =
           outcome (get_recommendations_heap d u2 c2 e2 f2 h2) \<and>
         preserved h1 (snd (get_recommendations_heap d u1 c1 e1 f1 h1)) \<and>
         preserved h2 (snd (get_recommendations_heap d u2 c2 e2 f2 h2))"
proof (intro conjI)
  show "outcome (get_recommendations_heap d u1 c1 e1 f1 h1) =
          outcome (get_recommendations_heap d u2 c2 e2 f2 h2)"
    unfolding get_recommendations_heap_refines(1) [OF assms(1)]
      get_recommendations_heap_refines(1) [OF assms(2)] assms(3-6) ..
  show "preserved h1 (snd (get_recommendations_heap d u1 c1 e1 f1 h1))"
    using assms(1) by (rule get_recommendations_heap_refines(2))
  show "preserved h2 (snd (get_recommendations_heap d u2 c2 e2 f2 h2))"
    using assms(2) by (rule get_recommendations_heap_refines(2))
qed

theorem C8_deterministic_witness:
  "valid_args first_heap 0 1 2 None \<and>
   valid_args second_heap 3 2 1 None \<and>
   lists first_heap ! 0 = lists second_heap ! 3 \<and>
   lists first_heap ! 1 = lists second_heap ! 2 \<and>
   lists first_heap ! 2 = lists second_heap ! 1 \<and>
   outcome (get_recommendations_heap (table_deps languages) 0 1 2 None first_heap) =
     Inr language_result \<and>
   outcome (get_recommendations_heap (table_deps languages) 3 2 1 None second_heap) =
     Inr language_result \<and>
   preserved first_heap
     (snd (get_recommendations_heap (table_deps languages) 0 1 2 None first_heap)) \<and>
   preserved second_heap
     (snd (get_recommendations_heap (table_deps languages) 3 2 1 None second_heap))"
proof -
  have v1: "valid_args first_heap 0 1 2 None" and v2: "valid_args second_heap 3 2 1 None"
    by (simp_all add: valid_args_def first_heap_def second_heap_def)
  have u: "lists first_heap ! 0 = lists second_heap ! 3"
    and c: "lists first_heap ! 1 = lists second_heap ! 2"
    and e: "lists first_heap ! 2 = lists second_heap ! 1"
    by (simp_all add: first_heap_def second_heap_def)
  have f: "map_option (\<lambda>r. dicts first_heap ! r) None = map_option (\<lambda>r. dicts second_heap ! r) None"
    by simp
  have first: "outcome (get_recommendations_heap (table_deps languages) 0 1 2 None first_heap) =
      Inr language_result"
    unfolding get_recommendations_heap_refines(1) [OF v1]
    using language_call by (simp add: first_heap_def)
  from C8_deterministic [OF v1 v2 u c e f, of "table_deps languages"] first v1 v2 u c e
  show ?thesis by simp
qed

text \<open>
  C9. The result does not depend on \<open>user_exchanges\<close>: two calls that differ in that
  argument only return the same.
\<close>

theorem C9_user_exchanges_unused:
  "get_recommendations d us cat ex1 fb = get_recommendations d us cat ex2 fb"
  by (simp add: get_recommendations_def)

theorem C9_user_exchanges_unused_witness:
  "get_recommendations (table_deps languages) [''python''] language_names
      [''python for java''] None = Inr language_result"
  using C9_user_exchanges_unused [of "table_deps languages" "[''python'']" language_names
      "[''python for java'']" None "[]"] language_call
  by simp

text \<open>
  C10. With feedback supplied, the pre-rank score of a catalog skill that is neither in
  \<open>liked\<close> nor in \<open>disliked\<close> equals the score the same call without feedback gives
  that catalog entry.
\<close>

theorem C10_unrated_unchanged:
  assumes "final_scores d us cat None = Inr base"
    and "final_scores d us cat (Some fb) = Inr adj"
    and "i < length cat"
    and "cat ! i \<notin> set (dict_get fb ''liked'')"
    and "cat ! i \<notin> set (dict_get fb ''disliked'')"
  shows "adj ! i = base ! i"
  using feedback_pointwise [OF assms(1-3)] assms(4,5) by (simp add: rescaled_def)

theorem C10_unrated_unchanged_witness:
  "final_scores (table_deps languages) [''python''] [''python'', ''java'', ''go'', ''c++''] None =
     Inr [Finite 1, Finite (4 / 5), Finite (3 / 5), Finite (- 1)] \<and>
   final_scores (table_deps languages) [''python''] [''python'', ''java'', ''go'', ''c++'']
      (Some feedback_example) =
     Inr [Finite 1, Finite (24 / 25), Finite (72 / 125), Finite (- (4 / 5))] \<and>
   (0 :: nat) < length [''python'', ''java'', ''go'', ''c++''] \<and>
   ''python'' \<notin> set (dict_get feedback_example ''liked'') \<and>
   ''python'' \<notin> set (dict_get feedback_example ''disliked'') \<and>
   [Finite 1, Finite (24 / 25), Finite (72 / 125), Finite (- (4 / 5))] ! 0 =
     [Finite 1, Finite (4 / 5), Finite (3 / 5), Finite (- 1)] ! 0"
  using C10_unrated_unchanged [OF feedback_base_scores feedback_adjusted_scores, of 0]
    feedback_base_scores feedback_adjusted_scores
  by (simp add: feedback_example_def dict_get_def)

end
